theory Spec2Isabelle
  imports Main "HOL-Library.AList"
begin

section \<open>JavaScript values\<close>

text \<open>
  The JSON values a request body decodes to and a stored record holds. A number is kept as
  the decimal text JavaScript prints it with (\<open>String(n)\<close>, so both zeros are \<open>''0''\<close>):
  the handlers never compute with a number, they test it for truth and pass it on. An
  object is the list of its own properties in insertion order, each key once.
  \<open>undefined\<close> is not a JSON value: a value that may be undefined is a \<open>json option\<close>.
\<close>

datatype json =
    JNull
  | JBool bool
  | JNumber string
  | JString string
  | JArray "json list"
  | JObject "(string \<times> json) list"

text \<open>Truthiness, as \<open>||\<close> tests it.\<close>

fun truthy :: "json \<Rightarrow> bool" where
  "truthy JNull = False"
| "truthy (JBool b) = b"
| "truthy (JNumber t) = (t \<noteq> ''0'' \<and> t \<noteq> ''NaN'')"
| "truthy (JString s) = (s \<noteq> [])"
| "truthy (JArray xs) = True"
| "truthy (JObject kvs) = True"

text \<open>
  The member read \<open>v.k\<close> for the keys the handlers read (\<open>id\<close>, \<open>name\<close>, \<open>price\<close>) on a
  value that is not null: an object gives its own property, every other value gives
  undefined (no prototype carries one of these keys).
\<close>

fun js_get :: "json \<Rightarrow> string \<Rightarrow> json option" where
  "js_get (JObject kvs) k = map_of kvs k"
| "js_get v k = None"

text \<open>A template literal's \<open>${id}\<close> for a string that may be undefined.\<close>

fun template :: "string option \<Rightarrow> string" where
  "template None = ''undefined''"
| "template (Some s) = s"

fun join :: "string \<Rightarrow> string list \<Rightarrow> string" where
  "join sep [] = []"
| "join sep [x] = x"
| "join sep (x # y # ys) = x @ sep @ join sep (y # ys)"

section \<open>Requests and responses\<close>

text \<open>
  The fields of \<open>APIGatewayProxyEvent\<close> the handlers read: \<open>pathParameters\<close> is an object
  of strings or null, \<open>body\<close> a string or null (the field \<open>reqBody\<close>).
\<close>

record event =
  httpMethod :: string
  pathParameters :: "(string \<rightharpoonup> string) option"
  reqBody :: "string option"

text \<open>\<open>APIGatewayProxyResult\<close>: \<open>headers\<close> is optional, an object in insertion order.\<close>

record response =
  statusCode :: nat
  body :: string
  headers :: "(string \<times> string) list option"

section \<open>The collaborators\<close>

text \<open>
  What the handlers call and the repository does not define is a parameter of the model:
  \<open>JSON.parse\<close> (\<open>Inl\<close> the message of the SyntaxError it throws), \<open>JSON.stringify\<close>,
  \<open>uuidv4\<close> (the identifier of the n-th draw), the message of the error the store's
  client raises for a request whose key has no value, and \<open>String(record)\<close> for a record
  the client returned (\<open>Inl\<close> the message of the TypeError when the object the client
  built cannot be converted to a primitive value).
\<close>

type_synonym item = "(string \<times> json) list"

record runtime =
  JSON_parse :: "string \<Rightarrow> string + json"
  JSON_stringify :: "json \<Rightarrow> string"
  uuidv4 :: "nat \<Rightarrow> string"
  key_error :: string
  record_text :: "item \<Rightarrow> string + string"

text \<open>
  The record store behind \<open>dbClient\<close> is a service outside the repository. Its model
  follows the contract the specification gives it (section 6): a put replaces the whole
  record under its key, a get is a point lookup, a delete a point delete, a scan with a
  limit returns no more records than the limit. There is one table (\<open>dynamoDBTableName\<close>),
  keyed by the attribute \<open>PK\<close>, so the table name of a request is left out.
  \<open>table\<close> holds the records by key in the store's own order, \<open>calls\<close> the requests the
  client has received, \<open>faults\<close> what the next requests meet (\<open>Some m\<close>: the request
  fails with message \<open>m\<close>, as when the store is unavailable or rejects the request;
  \<open>None\<close> or nothing left: the store serves it), \<open>drawn\<close> the number of identifiers
  \<open>uuidv4\<close> has produced.
\<close>

datatype db_call =
    PutCall "(string \<times> json option) list"
  | GetCall "string option"
  | DeleteCall "string option"
  | ScanCall nat

record world =
  table :: "(string \<times> item) list"
  faults :: "string option list"
  calls :: "db_call list"
  drawn :: nat

text \<open>What the logging and metrics calls write; nothing reads it back.\<close>

datatype level = INFO | LOG | ERROR

datatype logline =
    Console level string
  | ConsoleEvent level string event
  | Logger level string
  | Metric string string nat

section \<open>Effects\<close>

text \<open>
  An \<open>async\<close> computation: from the world to its result (\<open>Inl\<close> the message of the error
  it threw), the world it leaves and the lines it wrote. A throw keeps the effects made
  before it.
\<close>

type_synonym 'a io = "world \<Rightarrow> (string + 'a) \<times> world \<times> logline list"

definition ret :: "'a \<Rightarrow> 'a io" where
  "ret x = (\<lambda>w. (Inr x, w, []))"

definition throw :: "string \<Rightarrow> 'a io" where
  "throw m = (\<lambda>w. (Inl m, w, []))"

definition bind_io :: "'a io \<Rightarrow> ('a \<Rightarrow> 'b io) \<Rightarrow> 'b io" where
  "bind_io m f = (\<lambda>w.
     case m w of
       (Inl e, w', out) \<Rightarrow> (Inl e, w', out)
     | (Inr x, w', out) \<Rightarrow> (case f x w' of (r, w'', out') \<Rightarrow> (r, w'', out @ out')))"

definition try_catch :: "'a io \<Rightarrow> (string \<Rightarrow> 'a io) \<Rightarrow> 'a io" where
  "try_catch m h = (\<lambda>w.
     case m w of
       (Inl e, w', out) \<Rightarrow> (case h e w' of (r, w'', out') \<Rightarrow> (r, w'', out @ out'))
     | (Inr x, w', out) \<Rightarrow> (Inr x, w', out))"

definition emit :: "logline \<Rightarrow> unit io" where
  "emit line = (\<lambda>w. (Inr (), w, [line]))"

definition lift_result :: "string + 'a \<Rightarrow> 'a io" where
  "lift_result r = (\<lambda>w. (r, w, []))"

definition gets :: "(world \<Rightarrow> 'a) \<Rightarrow> 'a io" where
  "gets f = (\<lambda>w. (Inr (f w), w, []))"

definition modify :: "(world \<Rightarrow> world) \<Rightarrow> unit io" where
  "modify f = (\<lambda>w. (Inr (), f w, []))"

text \<open>The result and the world of a run, without the lines written.\<close>

definition run :: "'a io \<Rightarrow> world \<Rightarrow> (string + 'a) \<times> world" where
  "run m w = (case m w of (r, w', out) \<Rightarrow> (r, w'))"

subsection \<open>The store's client\<close>

text \<open>Every request is recorded and meets the next entry of the fault schedule.\<close>

definition next_fault :: "world \<Rightarrow> string option" where
  "next_fault w = (case faults w of [] \<Rightarrow> None | f # rest \<Rightarrow> f)"

definition received :: "db_call \<Rightarrow> world \<Rightarrow> world" where
  "received c w = w\<lparr>calls := calls w @ [c], faults := drop 1 (faults w)\<rparr>"

definition db_request :: "db_call \<Rightarrow> unit io" where
  "db_request c = (\<lambda>w.
     case next_fault w of
       Some m \<Rightarrow> (Inl m, received c w, [])
     | None \<Rightarrow> (Inr (), received c w, []))"

text \<open>The client leaves out the attributes whose value is undefined.\<close>

definition marshal :: "(string \<times> json option) list \<Rightarrow> item" where
  "marshal attrs = List.map_filter (\<lambda>(k, v). map_option (Pair k) v) attrs"

definition db_put :: "runtime \<Rightarrow> (string \<times> json option) list \<Rightarrow> unit io" where
  "db_put rt attrs =
     bind_io (db_request (PutCall attrs)) (\<lambda>_.
       case map_of attrs ''PK'' of
         Some (Some (JString k)) \<Rightarrow>
           modify (\<lambda>w. w\<lparr>table := AList.update k (marshal attrs) (table w)\<rparr>)
       | _ \<Rightarrow> throw (key_error rt))"

definition db_get :: "runtime \<Rightarrow> string option \<Rightarrow> item option io" where
  "db_get rt key =
     bind_io (db_request (GetCall key)) (\<lambda>_.
       case key of
         Some k \<Rightarrow> gets (\<lambda>w. map_of (table w) k)
       | None \<Rightarrow> throw (key_error rt))"

definition db_delete :: "runtime \<Rightarrow> string option \<Rightarrow> unit io" where
  "db_delete rt key =
     bind_io (db_request (DeleteCall key)) (\<lambda>_.
       case key of
         Some k \<Rightarrow> modify (\<lambda>w. w\<lparr>table := AList.delete k (table w)\<rparr>)
       | None \<Rightarrow> throw (key_error rt))"

definition db_scan :: "nat \<Rightarrow> item list io" where
  "db_scan limit =
     bind_io (db_request (ScanCall limit)) (\<lambda>_.
       gets (\<lambda>w. take limit (map snd (table w))))"

definition draw_uuid :: "runtime \<Rightarrow> string io" where
  "draw_uuid rt =
     bind_io (gets drawn) (\<lambda>n.
       bind_io (modify (\<lambda>w. w\<lparr>drawn := Suc n\<rparr>)) (\<lambda>_.
         ret (uuidv4 rt n)))"

section \<open>The handlers of products/app.ts\<close>

text \<open>
  Each \<open>process...Event\<close> is a log line followed by a \<open>try\<close> block and its \<open>catch\<close>; the
  two blocks are the definitions \<open>_try\<close> and \<open>_catch\<close>, and \<open>try_catch\<close> puts them together.
  \<open>err.message\<close> is the message the computation threw.
\<close>

definition console :: "level \<Rightarrow> string \<Rightarrow> unit io" where
  "console l s = emit (Console l s)"

text \<open>\<open>input.pathParameters?.id\<close>\<close>

definition path_id :: "event \<Rightarrow> string option" where
  "path_id input = (case pathParameters input of None \<Rightarrow> None | Some ps \<Rightarrow> ps ''id'')"

text \<open>\<open>input.body || ''\<close>\<close>

definition body_text :: "event \<Rightarrow> string" where
  "body_text input = (case reqBody input of None \<Rightarrow> [] | Some s \<Rightarrow> if s = [] then [] else s)"

text \<open>
  Modelled from the spec: the interface \<open>Product\<close> of \<open>./types\<close>, whose file this
  development does not have, has the fields \<open>id\<close>, \<open>name\<close> and \<open>price\<close> (section 3). The
  annotation \<open>: Product\<close> neither checks nor converts the parsed value, so the product is
  the JSON value that \<open>JSON.parse(input.body || '') || {}\<close> yields.
\<close>

definition parse_product :: "runtime \<Rightarrow> event \<Rightarrow> json io" where
  "parse_product rt input =
     bind_io (lift_result (JSON_parse rt (body_text input))) (\<lambda>parsed.
       ret (if truthy parsed then parsed else JObject []))"

definition addResponseHeaders :: "response \<Rightarrow> response" where
  "addResponseHeaders r =
     r\<lparr>headers := Some [(''Content-Type'', ''application/json''),
                         (''X-Custom-Header'', ''application/json'')]\<rparr>"

definition processPutEvent_try :: "runtime \<Rightarrow> event \<Rightarrow> response io" where
  "processPutEvent_try rt input =
     (let id = path_id input in
      bind_io (parse_product rt input) (\<lambda>product.
        if js_get product ''id'' \<noteq> map_option JString id then
          ret \<lparr>statusCode = 400,
               body = JSON_stringify rt (JObject [(''error'',
                 JString ''Product ID in the body does not match path parameter'')]),
               headers = None\<rparr>
        else
          bind_io (db_put rt [(''PK'', js_get product ''id''),
                              (''name'', js_get product ''name''),
                              (''price'', js_get product ''price'')]) (\<lambda>_.
            let successMessage = ''Product with id = '' @ template id @ '' edited(created)'' in
            bind_io (console LOG successMessage) (\<lambda>_.
              ret \<lparr>statusCode = 201,
                   body = JSON_stringify rt (JObject [(''message'', JString successMessage)]),
                   headers = None\<rparr>))))"

definition processPutEvent_catch :: "runtime \<Rightarrow> string \<Rightarrow> response io" where
  "processPutEvent_catch rt message =
     (let errorMessage = ''Internal Server Error for Put :: '' @ message in
      bind_io (console ERROR errorMessage) (\<lambda>_.
        ret \<lparr>statusCode = 500,
             body = JSON_stringify rt (JObject [(''error'', JString errorMessage)]),
             headers = None\<rparr>))"

definition processPutEvent :: "runtime \<Rightarrow> event \<Rightarrow> response io" where
  "processPutEvent rt input =
     bind_io (console INFO ''Processing Put Event'') (\<lambda>_.
       try_catch (processPutEvent_try rt input) (processPutEvent_catch rt))"

definition processPostEvent_try :: "runtime \<Rightarrow> event \<Rightarrow> response io" where
  "processPostEvent_try rt input =
     bind_io (parse_product rt input) (\<lambda>product.
       bind_io (draw_uuid rt) (\<lambda>productId.
         bind_io (db_put rt [(''PK'', Some (JString productId)),
                             (''name'', js_get product ''name''),
                             (''price'', js_get product ''price'')]) (\<lambda>_.
           let successMessage = ''Product with id = '' @ productId @ '' created'' in
           bind_io (console LOG successMessage) (\<lambda>_.
             ret \<lparr>statusCode = 201,
                  body = JSON_stringify rt (JObject [(''message'', JString successMessage)]),
                  headers = None\<rparr>))))"

definition processPostEvent_catch :: "runtime \<Rightarrow> string \<Rightarrow> response io" where
  "processPostEvent_catch rt message =
     (let errorMessage = ''Internal Server Error for Post :: '' @ message in
      bind_io (console ERROR errorMessage) (\<lambda>_.
        ret \<lparr>statusCode = 500,
             body = JSON_stringify rt (JObject [(''error'', JString errorMessage)]),
             headers = None\<rparr>))"

definition processPostEvent :: "runtime \<Rightarrow> event \<Rightarrow> response io" where
  "processPostEvent rt input =
     bind_io (console INFO ''Processing Post Event'') (\<lambda>_.
       try_catch (processPostEvent_try rt input) (processPostEvent_catch rt))"

text \<open>
  \<open>${products.Items}\<close>, inside the \<open>try\<close>: the array converts its records to strings from
  left to right and joins the texts with commas. The conversion of a record can throw (a
  record with an attribute \<open>toString\<close> hides the method of \<open>Object.prototype\<close> behind a
  value that cannot be called); the first throw ends the conversion.
\<close>

fun object_texts :: "runtime \<Rightarrow> item list \<Rightarrow> string + string list" where
  "object_texts rt [] = Inr []"
| "object_texts rt (record # records) =
     (case record_text rt record of
        Inl m \<Rightarrow> Inl m
      | Inr t \<Rightarrow>
          (case object_texts rt records of
             Inl m \<Rightarrow> Inl m
           | Inr ts \<Rightarrow> Inr (t # ts)))"

definition items_text :: "runtime \<Rightarrow> item list \<Rightarrow> string io" where
  "items_text rt items =
     bind_io (lift_result (object_texts rt items)) (\<lambda>ts. ret (join '','' ts))"

definition processGetAllEvent_try :: "runtime \<Rightarrow> response io" where
  "processGetAllEvent_try rt =
     bind_io (db_scan 20) (\<lambda>items.
       bind_io (items_text rt items) (\<lambda>text.
         let successMessage = ''Successfully retrieved all products: '' @ text in
         bind_io (console LOG successMessage) (\<lambda>_.
           ret \<lparr>statusCode = 200,
                body = JSON_stringify rt (JArray (map JObject items)),
                headers = None\<rparr>)))"

definition processGetAllEvent_catch :: "runtime \<Rightarrow> string \<Rightarrow> response io" where
  "processGetAllEvent_catch rt message =
     (let errorMessage = ''Internal Server Error for GetAll :: '' @ message in
      bind_io (console ERROR errorMessage) (\<lambda>_.
        ret \<lparr>statusCode = 500,
             body = JSON_stringify rt (JObject [(''error'', JString errorMessage)]),
             headers = None\<rparr>))"

definition processGetAllEvent :: "runtime \<Rightarrow> response io" where
  "processGetAllEvent rt =
     bind_io (console INFO ''Processing Get All Event'') (\<lambda>_.
       try_catch (processGetAllEvent_try rt) (processGetAllEvent_catch rt))"

definition processGetByIdEvent_try :: "runtime \<Rightarrow> event \<Rightarrow> response io" where
  "processGetByIdEvent_try rt input =
     (let id = path_id input in
      bind_io (if id = Some ''ForceError'' then throw ''BOOM'' else ret ()) (\<lambda>_.
        bind_io (db_get rt id) (\<lambda>product.
          case product of
            Some found \<Rightarrow>
              (let successMessage = ''Product with id = '' @ template id @ '' found'' in
               bind_io (console LOG successMessage) (\<lambda>_.
                 ret \<lparr>statusCode = 200,
                      body = JSON_stringify rt (JObject found),
                      headers = None\<rparr>))
          | None \<Rightarrow>
              (let notFoundMessage = ''Product with id = '' @ template id @ '' NOT found'' in
               bind_io (console LOG notFoundMessage) (\<lambda>_.
                 ret \<lparr>statusCode = 404,
                      body = JSON_stringify rt (JObject [(''error'', JString notFoundMessage)]),
                      headers = None\<rparr>)))))"

definition processGetByIdEvent_catch :: "runtime \<Rightarrow> string \<Rightarrow> response io" where
  "processGetByIdEvent_catch rt message =
     (let errorMessage = ''Internal Server Error for GetById :: '' @ message in
      bind_io (console ERROR errorMessage) (\<lambda>_.
        ret \<lparr>statusCode = 500,
             body = JSON_stringify rt (JObject [(''error'', JString errorMessage)]),
             headers = None\<rparr>))"

definition processGetByIdEvent :: "runtime \<Rightarrow> event \<Rightarrow> response io" where
  "processGetByIdEvent rt input =
     bind_io (console INFO ''Processing Get By Id Event'') (\<lambda>_.
       try_catch (processGetByIdEvent_try rt input) (processGetByIdEvent_catch rt))"

definition processDeleteEvent_try :: "runtime \<Rightarrow> event \<Rightarrow> response io" where
  "processDeleteEvent_try rt input =
     (let id = path_id input in
      bind_io (db_get rt id) (\<lambda>product.
        case product of
          Some found \<Rightarrow>
            bind_io (db_delete rt id) (\<lambda>_.
              let successMessage = ''Product with id = '' @ template id @ '' was deleted'' in
              bind_io (console LOG successMessage) (\<lambda>_.
                ret \<lparr>statusCode = 200,
                     body = JSON_stringify rt (JObject [(''message'', JString successMessage)]),
                     headers = None\<rparr>))
        | None \<Rightarrow>
            (let notFoundMessage = ''Product with id = '' @ template id @ '' was deleted'' in
             bind_io (console LOG notFoundMessage) (\<lambda>_.
               ret \<lparr>statusCode = 404,
                    body = JSON_stringify rt (JObject [(''error'', JString notFoundMessage)]),
                    headers = None\<rparr>))))"

definition processDeleteEvent_catch :: "runtime \<Rightarrow> string \<Rightarrow> response io" where
  "processDeleteEvent_catch rt message =
     (let errorMessage = ''Internal Server Error for Delete :: '' @ message in
      bind_io (console ERROR errorMessage) (\<lambda>_.
        ret \<lparr>statusCode = 500,
             body = JSON_stringify rt (JObject [(''error'', JString errorMessage)]),
             headers = None\<rparr>))"

definition processDeleteEvent :: "runtime \<Rightarrow> event \<Rightarrow> response io" where
  "processDeleteEvent rt input =
     bind_io (console INFO ''Processing Delete Event'') (\<lambda>_.
       try_catch (processDeleteEvent_try rt input) (processDeleteEvent_catch rt))"

text \<open>\<open>addResponseHeaders(await p)\<close>, with its own log line.\<close>

definition finalize :: "response io \<Rightarrow> response io" where
  "finalize p =
     bind_io p (\<lambda>r.
       bind_io (console INFO ''Adding Response Headers'') (\<lambda>_.
         ret (addResponseHeaders r)))"

definition handler :: "runtime \<Rightarrow> event \<Rightarrow> response io" where
  "handler rt event =
     bind_io (emit (ConsoleEvent INFO ''Lambda Invocation Event :: '' event)) (\<lambda>_.
       if httpMethod event = ''PUT'' then finalize (processPutEvent rt event)
       else if httpMethod event = ''POST'' then finalize (processPostEvent rt event)
       else if httpMethod event = ''GET'' then
         (if pathParameters event = None then finalize (processGetAllEvent rt)
          else finalize (processGetByIdEvent rt event))
       else if httpMethod event = ''DELETE'' then finalize (processDeleteEvent rt event)
       else
         (let response = \<lparr>statusCode = 500,
                          body = JSON_stringify rt (JObject [(''message'',
                            JString ''some error happened'')]),
                          headers = None\<rparr> in
          bind_io (console ERROR ''Error happened while processing the request'') (\<lambda>_.
            finalize (ret response))))"

section \<open>The handlers with Powertools and middy\<close>














section \<open>A runtime and worlds to evaluate on\<close>

text \<open>
  \<open>stringify\<close> is \<open>JSON.stringify\<close> on JSON values: no white space, strings quoted with
  the quote, the backslash and the control characters escaped, a number that is not
  finite as \<open>null\<close>.
\<close>

definition hex :: "nat \<Rightarrow> char" where
  "hex n = ''0123456789abcdef'' ! (n mod 16)"

definition quote_char :: "char \<Rightarrow> string" where
  "quote_char c =
     (if c = CHR 0x22 then [CHR 0x5C, CHR 0x22]
      else if c = CHR 0x5C then [CHR 0x5C, CHR 0x5C]
      else if c = CHR 0x08 then [CHR 0x5C, CHR ''b'']
      else if c = CHR 0x09 then [CHR 0x5C, CHR ''t'']
      else if c = CHR 0x0A then [CHR 0x5C, CHR ''n'']
      else if c = CHR 0x0C then [CHR 0x5C, CHR ''f'']
      else if c = CHR 0x0D then [CHR 0x5C, CHR ''r'']
      else if (of_char c :: nat) < 32 then
        [CHR 0x5C, CHR ''u'', CHR ''0'', CHR ''0'', hex (of_char c div 16), hex (of_char c)]
      else [c])"

definition quote :: "string \<Rightarrow> string" where
  "quote s = CHR 0x22 # concat (map quote_char s) @ [CHR 0x22]"

fun stringify :: "json \<Rightarrow> string" where
  "stringify JNull = ''null''"
| "stringify (JBool b) = (if b then ''true'' else ''false'')"
| "stringify (JNumber t) =
     (if t = ''Infinity'' \<or> t = ''-Infinity'' \<or> t = ''NaN'' then ''null'' else t)"
| "stringify (JString s) = quote s"
| "stringify (JArray xs) = ''['' @ join '','' (map stringify xs) @ '']''"
| "stringify (JObject kvs) =
     ''{'' @ join '','' (map (\<lambda>(k, v). quote k @ '':'' @ stringify v) kvs) @ ''}''"

text \<open>
  What \<open>JSON.parse\<close> returns on the request bodies used below; the sample runtime takes
  no other body.
\<close>

definition pen_text :: string where
  \<open>pen_text = ''{"id":"p1","name":"pen","price":3}''\<close>

definition force_text :: string where
  \<open>force_text = ''{"id":"ForceError","name":"pen","price":3}''\<close>

definition parse_table :: "(string \<times> (string + json)) list" where
  "parse_table =
     [('''', Inl ''Unexpected end of JSON input''),
      (''{'', Inl ''Unexpected end of JSON input''),
      (''null'', Inr JNull),
      (pen_text,
         Inr (JObject [(''id'', JString ''p1''), (''name'', JString ''pen''),
                       (''price'', JNumber ''3'')])),
      (force_text,
         Inr (JObject [(''id'', JString ''ForceError''), (''name'', JString ''pen''),
                       (''price'', JNumber ''3'')]))]"

definition sample_parse :: "string \<Rightarrow> string + json" where
  "sample_parse s =
     (case map_of parse_table s of Some r \<Rightarrow> r | None \<Rightarrow> Inl ''Unexpected token'')"

text \<open>
  A record without an attribute \<open>toString\<close> prints as \<open>[object Object]\<close>; with one, the
  conversion throws.
\<close>

definition sample_record_text :: "item \<Rightarrow> string + string" where
  "sample_record_text record =
     (case map_of record ''toString'' of
        None \<Rightarrow> Inr ''[object Object]''
      | Some v \<Rightarrow> Inl ''Cannot convert object to primitive value'')"

definition sample_rt :: runtime where
  "sample_rt =
     \<lparr>JSON_parse = sample_parse,
      JSON_stringify = stringify,
      uuidv4 = (\<lambda>n. ''1b9d6bcd-bbfd-4b2d-9b5d-ab8dfbbd4be'' @ [hex n]),
      key_error = ''The provided key element does not match the schema'',
      record_text = sample_record_text\<rparr>"



definition empty_world :: world where
  "empty_world = \<lparr>table = [], faults = [], calls = [], drawn = 0\<rparr>"

text \<open>A store of 21 records, keyed \<open>a\<close> to \<open>u\<close>.\<close>

definition full_world :: world where
  "full_world =
     \<lparr>table = map (\<lambda>c. ([c], [(''PK'', JString [c])])) ''abcdefghijklmnopqrstu'',
      faults = [], calls = [], drawn = 0\<rparr>"

text \<open>A store that holds a record under \<open>p1\<close>.\<close>

definition stocked_world :: world where
  "stocked_world =
     \<lparr>table = [(''p1'', [(''PK'', JString ''p1''), (''name'', JString ''pencil''),
                          (''colour'', JString ''red'')])],
      faults = [], calls = [], drawn = 0\<rparr>"

text \<open>A store whose record has an attribute \<open>toString\<close>.\<close>

definition shadowed_world :: world where
  "shadowed_world =
     \<lparr>table = [(''p1'', [(''PK'', JString ''p1''), (''toString'', JString ''pen'')])],
      faults = [], calls = [], drawn = 0\<rparr>"

text \<open>A store whose next request fails.\<close>

definition down_world :: world where
  "down_world =
     \<lparr>table = [], faults = [Some ''Service Unavailable''], calls = [], drawn = 0\<rparr>"

text \<open>Shorthand for the headers and bodies the responses carry.\<close>

abbreviation fixed_headers :: "(string \<times> string) list" where
  "fixed_headers \<equiv>
     [(''Content-Type'', ''application/json''), (''X-Custom-Header'', ''application/json'')]"

abbreviation error_body :: "runtime \<Rightarrow> string \<Rightarrow> string" where
  "error_body rt text \<equiv> JSON_stringify rt (JObject [(''error'', JString text)])"

abbreviation message_body :: "runtime \<Rightarrow> string \<Rightarrow> string" where
  "message_body rt text \<equiv> JSON_stringify rt (JObject [(''message'', JString text)])"

definition request :: "string \<Rightarrow> string option \<Rightarrow> string option \<Rightarrow> event" where
  "request method key text =
     \<lparr>httpMethod = method,
      pathParameters = (case key of None \<Rightarrow> None | Some k \<Rightarrow> Some [''id'' \<mapsto> k]),
      reqBody = text\<rparr>"

section \<open>Running the effects\<close>

text \<open>\<open>run\<close> of each effect, so that a handler can be run without unfolding \<open>io\<close>.\<close>

lemma run_ret [simp]: "run (ret x) w = (Inr x, w)"
  by (simp add: run_def ret_def)

lemma run_throw [simp]: "run (throw m) w = (Inl m, w)"
  by (simp add: run_def throw_def)

lemma run_emit [simp]: "run (emit l) w = (Inr (), w)"
  by (simp add: run_def emit_def)

lemma run_console [simp]: "run (console l s) w = (Inr (), w)"
  by (simp add: console_def)

lemma run_lift_result [simp]: "run (lift_result r) w = (r, w)"
  by (simp add: run_def lift_result_def)

lemma run_gets [simp]: "run (gets f) w = (Inr (f w), w)"
  by (simp add: run_def gets_def)

lemma run_modify [simp]: "run (modify f) w = (Inr (), f w)"
  by (simp add: run_def modify_def)

lemma run_bind_io [simp]:
  "run (bind_io m f) w =
     (case run m w of (Inl e, w') \<Rightarrow> (Inl e, w') | (Inr x, w') \<Rightarrow> run (f x) w')"
  by (simp add: run_def bind_io_def split: prod.splits sum.splits)

lemma run_try_catch [simp]:
  "run (try_catch m h) w =
     (case run m w of (Inl e, w') \<Rightarrow> run (h e) w' | (Inr x, w') \<Rightarrow> (Inr x, w'))"
  by (simp add: run_def try_catch_def split: prod.splits sum.splits)

lemma received_fields [simp]:
  "table (received c w) = table w"
  "calls (received c w) = calls w @ [c]"
  "faults (received c w) = drop 1 (faults w)"
  "drawn (received c w) = drawn w"
  by (simp_all add: received_def)

lemma run_db_request [simp]:
  "run (db_request c) w =
     (case next_fault w of Some m \<Rightarrow> (Inl m, received c w) | None \<Rightarrow> (Inr (), received c w))"
  by (simp add: run_def db_request_def split: option.splits)

lemma run_draw_uuid [simp]:
  "run (draw_uuid rt) w = (Inr (uuidv4 rt (drawn w)), w\<lparr>drawn := Suc (drawn w)\<rparr>)"
  by (simp add: draw_uuid_def)

lemma run_parse_product:
  "run (parse_product rt input) w =
     (case JSON_parse rt (body_text input) of
        Inl m \<Rightarrow> (Inl m, w)
      | Inr v \<Rightarrow> (Inr (if truthy v then v else JObject []), w))"
  by (simp add: parse_product_def split: sum.splits)

lemma run_db_get:
  "run (db_get rt key) w =
     (case next_fault w of
        Some m \<Rightarrow> (Inl m, received (GetCall key) w)
      | None \<Rightarrow>
          (case key of
             Some k \<Rightarrow> (Inr (map_of (table w) k), received (GetCall key) w)
           | None \<Rightarrow> (Inl (key_error rt), received (GetCall key) w)))"
  by (simp add: db_get_def split: option.splits)

lemma run_db_scan:
  "run (db_scan n) w =
     (case next_fault w of
        Some m \<Rightarrow> (Inl m, received (ScanCall n) w)
      | None \<Rightarrow> (Inr (take n (map snd (table w))), received (ScanCall n) w))"
  by (simp add: db_scan_def split: option.splits)

lemma run_items_text:
  "run (items_text rt items) w =
     (case object_texts rt items of
        Inl m \<Rightarrow> (Inl m, w)
      | Inr ts \<Rightarrow> (Inr (join '','' ts), w))"
  by (simp add: items_text_def split: sum.splits)

lemma run_db_delete:
  "run (db_delete rt key) w =
     (case next_fault w of
        Some m \<Rightarrow> (Inl m, received (DeleteCall key) w)
      | None \<Rightarrow>
          (case key of
             Some k \<Rightarrow> (Inr (), (received (DeleteCall key) w)\<lparr>table := AList.delete k (table w)\<rparr>)
           | None \<Rightarrow> (Inl (key_error rt), received (DeleteCall key) w)))"
  by (simp add: db_delete_def split: option.splits)

lemma run_db_put:
  "run (db_put rt attrs) w =
     (case next_fault w of
        Some m \<Rightarrow> (Inl m, received (PutCall attrs) w)
      | None \<Rightarrow>
          (case map_of attrs ''PK'' of
             Some (Some (JString k)) \<Rightarrow>
               (Inr (), (received (PutCall attrs) w)\<lparr>table := AList.update k (marshal attrs) (table w)\<rparr>)
           | _ \<Rightarrow> (Inl (key_error rt), received (PutCall attrs) w)))"
  by (simp add: db_put_def split: option.splits json.splits)

lemma run_finalize [simp]:
  "run (finalize p) w =
     (case run p w of (Inl e, w') \<Rightarrow> (Inl e, w') | (Inr r, w') \<Rightarrow> (Inr (addResponseHeaders r), w'))"
  by (simp add: finalize_def split: prod.splits sum.splits)





section \<open>What each handler returns\<close>








lemma run_handler:
  "run (handler rt ev) w =
     (if httpMethod ev = ''PUT'' then run (finalize (processPutEvent rt ev)) w
      else if httpMethod ev = ''POST'' then run (finalize (processPostEvent rt ev)) w
      else if httpMethod ev = ''GET'' then
        (if pathParameters ev = None then run (finalize (processGetAllEvent rt)) w
         else run (finalize (processGetByIdEvent rt ev)) w)
      else if httpMethod ev = ''DELETE'' then run (finalize (processDeleteEvent rt ev)) w
      else (Inr \<lparr>statusCode = 500, body = message_body rt ''some error happened'',
                 headers = Some fixed_headers\<rparr>, w))"
  by (simp add: handler_def Let_def addResponseHeaders_def)

lemma run_processGetByIdEvent:
  "run (processGetByIdEvent rt ev) w =
     (if path_id ev = Some ''ForceError'' then
        (Inr \<lparr>statusCode = 500, body = error_body rt ''Internal Server Error for GetById :: BOOM'',
              headers = None\<rparr>, w)
      else case next_fault w of
        Some m \<Rightarrow>
          (Inr \<lparr>statusCode = 500, body = error_body rt (''Internal Server Error for GetById :: '' @ m),
                headers = None\<rparr>, received (GetCall (path_id ev)) w)
      | None \<Rightarrow>
         (case path_id ev of
            None \<Rightarrow>
              (Inr \<lparr>statusCode = 500,
                    body = error_body rt (''Internal Server Error for GetById :: '' @ key_error rt),
                    headers = None\<rparr>, received (GetCall None) w)
          | Some k \<Rightarrow>
             (case map_of (table w) k of
                Some found \<Rightarrow>
                  (Inr \<lparr>statusCode = 200, body = JSON_stringify rt (JObject found), headers = None\<rparr>,
                   received (GetCall (Some k)) w)
              | None \<Rightarrow>
                  (Inr \<lparr>statusCode = 404,
                        body = error_body rt (''Product with id = '' @ k @ '' NOT found''),
                        headers = None\<rparr>, received (GetCall (Some k)) w))))"
  by (simp add: processGetByIdEvent_def processGetByIdEvent_try_def processGetByIdEvent_catch_def
      run_db_get Let_def split: option.splits)

lemma run_processGetAllEvent:
  "run (processGetAllEvent rt) w =
     (case next_fault w of
        Some m \<Rightarrow>
          (Inr \<lparr>statusCode = 500, body = error_body rt (''Internal Server Error for GetAll :: '' @ m),
                headers = None\<rparr>, received (ScanCall 20) w)
      | None \<Rightarrow>
          (case object_texts rt (take 20 (map snd (table w))) of
             Inl m \<Rightarrow>
               (Inr \<lparr>statusCode = 500,
                     body = error_body rt (''Internal Server Error for GetAll :: '' @ m),
                     headers = None\<rparr>, received (ScanCall 20) w)
           | Inr ts \<Rightarrow>
               (Inr \<lparr>statusCode = 200,
                     body = JSON_stringify rt (JArray (map JObject (take 20 (map snd (table w))))),
                     headers = None\<rparr>, received (ScanCall 20) w)))"
  by (simp add: processGetAllEvent_def processGetAllEvent_try_def processGetAllEvent_catch_def
      run_db_scan run_items_text Let_def split: option.splits sum.splits)

lemma run_processDeleteEvent:
  "run (processDeleteEvent rt ev) w =
     (case next_fault w of
        Some m \<Rightarrow>
          (Inr \<lparr>statusCode = 500, body = error_body rt (''Internal Server Error for Delete :: '' @ m),
                headers = None\<rparr>, received (GetCall (path_id ev)) w)
      | None \<Rightarrow>
         (case path_id ev of
            None \<Rightarrow>
              (Inr \<lparr>statusCode = 500,
                    body = error_body rt (''Internal Server Error for Delete :: '' @ key_error rt),
                    headers = None\<rparr>, received (GetCall None) w)
          | Some k \<Rightarrow>
             (case map_of (table w) k of
                None \<Rightarrow>
                  (Inr \<lparr>statusCode = 404,
                        body = error_body rt (''Product with id = '' @ k @ '' was deleted''),
                        headers = None\<rparr>, received (GetCall (Some k)) w)
              | Some found \<Rightarrow>
                 (case next_fault (received (GetCall (Some k)) w) of
                    Some m \<Rightarrow>
                      (Inr \<lparr>statusCode = 500,
                            body = error_body rt (''Internal Server Error for Delete :: '' @ m),
                            headers = None\<rparr>,
                       received (DeleteCall (Some k)) (received (GetCall (Some k)) w))
                  | None \<Rightarrow>
                      (Inr \<lparr>statusCode = 200,
                            body = message_body rt (''Product with id = '' @ k @ '' was deleted''),
                            headers = None\<rparr>,
                       (received (DeleteCall (Some k)) (received (GetCall (Some k)) w))
                         \<lparr>table := AList.delete k (table w)\<rparr>)))))"
  by (simp add: processDeleteEvent_def processDeleteEvent_try_def processDeleteEvent_catch_def
      run_db_get run_db_delete Let_def split: option.splits)

lemma run_processPutEvent:
  "run (processPutEvent rt ev) w =
     (case JSON_parse rt (body_text ev) of
        Inl m \<Rightarrow>
          (Inr \<lparr>statusCode = 500, body = error_body rt (''Internal Server Error for Put :: '' @ m),
                headers = None\<rparr>, w)
      | Inr v \<Rightarrow>
          (let product = (if truthy v then v else JObject []) in
           if js_get product ''id'' \<noteq> map_option JString (path_id ev) then
             (Inr \<lparr>statusCode = 400,
                   body = error_body rt ''Product ID in the body does not match path parameter'',
                   headers = None\<rparr>, w)
           else
             (let attrs = [(''PK'', js_get product ''id''), (''name'', js_get product ''name''),
                           (''price'', js_get product ''price'')] in
              case next_fault w of
                Some m \<Rightarrow>
                  (Inr \<lparr>statusCode = 500,
                        body = error_body rt (''Internal Server Error for Put :: '' @ m),
                        headers = None\<rparr>, received (PutCall attrs) w)
              | None \<Rightarrow>
                 (case path_id ev of
                    None \<Rightarrow>
                      (Inr \<lparr>statusCode = 500,
                            body = error_body rt (''Internal Server Error for Put :: '' @ key_error rt),
                            headers = None\<rparr>, received (PutCall attrs) w)
                  | Some k \<Rightarrow>
                      (Inr \<lparr>statusCode = 201,
                            body = message_body rt (''Product with id = '' @ k @ '' edited(created)''),
                            headers = None\<rparr>,
                       (received (PutCall attrs) w)
                         \<lparr>table := AList.update k (marshal attrs) (table w)\<rparr>)))))"
  by (simp add: processPutEvent_def processPutEvent_try_def processPutEvent_catch_def
      run_parse_product run_db_put Let_def split: option.splits sum.splits)

lemma run_processPostEvent:
  "run (processPostEvent rt ev) w =
     (case JSON_parse rt (body_text ev) of
        Inl m \<Rightarrow>
          (Inr \<lparr>statusCode = 500, body = error_body rt (''Internal Server Error for Post :: '' @ m),
                headers = None\<rparr>, w)
      | Inr v \<Rightarrow>
          (let product = (if truthy v then v else JObject []);
               productId = uuidv4 rt (drawn w);
               attrs = [(''PK'', Some (JString productId)), (''name'', js_get product ''name''),
                        (''price'', js_get product ''price'')];
               w1 = received (PutCall attrs) (w\<lparr>drawn := Suc (drawn w)\<rparr>) in
           case next_fault w of
             Some m \<Rightarrow>
               (Inr \<lparr>statusCode = 500,
                     body = error_body rt (''Internal Server Error for Post :: '' @ m),
                     headers = None\<rparr>, w1)
           | None \<Rightarrow>
               (Inr \<lparr>statusCode = 201,
                     body = message_body rt (''Product with id = '' @ productId @ '' created''),
                     headers = None\<rparr>,
                w1\<lparr>table := AList.update productId (marshal attrs) (table w)\<rparr>)))"
  by (simp add: processPostEvent_def processPostEvent_try_def processPostEvent_catch_def
      run_parse_product run_db_put Let_def next_fault_def split: option.splits sum.splits)

lemma process_returns:
  "\<exists>r w'. run (processPutEvent rt ev) w = (Inr r, w')"
  "\<exists>r w'. run (processPostEvent rt ev) w = (Inr r, w')"
  "\<exists>r w'. run (processGetAllEvent rt) w = (Inr r, w')"
  "\<exists>r w'. run (processGetByIdEvent rt ev) w = (Inr r, w')"
  "\<exists>r w'. run (processDeleteEvent rt ev) w = (Inr r, w')"
  by (simp_all add: run_processPutEvent run_processPostEvent run_processGetAllEvent
      run_processGetByIdEvent run_processDeleteEvent Let_def split: option.splits sum.splits)

lemma finalize_returns:
  assumes "\<exists>r w'. run p w = (Inr r, w')"
  shows "\<exists>r w'. run (finalize p) w = (Inr (addResponseHeaders r), w')"
  using assms by auto

lemma handler_returns:
  "\<exists>r w'. run (handler rt ev) w = (Inr (addResponseHeaders r), w')"
proof -
  have other: "\<exists>r. \<lparr>statusCode = 500, body = message_body rt ''some error happened'',
      headers = Some fixed_headers\<rparr> = addResponseHeaders r"
    by (rule exI [of _ "\<lparr>statusCode = 500, body = message_body rt ''some error happened'',
      headers = None\<rparr>"]) (simp add: addResponseHeaders_def)
  show ?thesis
    using finalize_returns [OF process_returns(1), of rt ev w]
      finalize_returns [OF process_returns(2), of rt ev w]
      finalize_returns [OF process_returns(3), of rt w]
      finalize_returns [OF process_returns(4), of rt ev w]
      finalize_returns [OF process_returns(5), of rt ev w] other
    by (auto simp add: run_handler simp del: run_finalize)
qed

lemma caught:
  "run (processPutEvent rt ev) w =
     (case run (processPutEvent_try rt ev) w of
        (Inl m, w') \<Rightarrow> run (processPutEvent_catch rt m) w'
      | (Inr r, w') \<Rightarrow> (Inr r, w'))"
  "run (processPostEvent rt ev) w =
     (case run (processPostEvent_try rt ev) w of
        (Inl m, w') \<Rightarrow> run (processPostEvent_catch rt m) w'
      | (Inr r, w') \<Rightarrow> (Inr r, w'))"
  "run (processGetAllEvent rt) w =
     (case run (processGetAllEvent_try rt) w of
        (Inl m, w') \<Rightarrow> run (processGetAllEvent_catch rt m) w'
      | (Inr r, w') \<Rightarrow> (Inr r, w'))"
  "run (processGetByIdEvent rt ev) w =
     (case run (processGetByIdEvent_try rt ev) w of
        (Inl m, w') \<Rightarrow> run (processGetByIdEvent_catch rt m) w'
      | (Inr r, w') \<Rightarrow> (Inr r, w'))"
  "run (processDeleteEvent rt ev) w =
     (case run (processDeleteEvent_try rt ev) w of
        (Inl m, w') \<Rightarrow> run (processDeleteEvent_catch rt m) w'
      | (Inr r, w') \<Rightarrow> (Inr r, w'))"
  by (simp_all add: processPutEvent_def processPostEvent_def processGetAllEvent_def
      processGetByIdEvent_def processDeleteEvent_def)

lemma run_catch:
  "run (processPutEvent_catch rt m) w =
     (Inr \<lparr>statusCode = 500, body = error_body rt (''Internal Server Error for Put :: '' @ m),
           headers = None\<rparr>, w)"
  "run (processPostEvent_catch rt m) w =
     (Inr \<lparr>statusCode = 500, body = error_body rt (''Internal Server Error for Post :: '' @ m),
           headers = None\<rparr>, w)"
  "run (processGetAllEvent_catch rt m) w =
     (Inr \<lparr>statusCode = 500, body = error_body rt (''Internal Server Error for GetAll :: '' @ m),
           headers = None\<rparr>, w)"
  "run (processGetByIdEvent_catch rt m) w =
     (Inr \<lparr>statusCode = 500, body = error_body rt (''Internal Server Error for GetById :: '' @ m),
           headers = None\<rparr>, w)"
  "run (processDeleteEvent_catch rt m) w =
     (Inr \<lparr>statusCode = 500, body = error_body rt (''Internal Server Error for Delete :: '' @ m),
           headers = None\<rparr>, w)"
  by (simp_all add: processPutEvent_catch_def processPostEvent_catch_def
      processGetAllEvent_catch_def processGetByIdEvent_catch_def processDeleteEvent_catch_def
      Let_def)

section \<open>The dispatcher\<close>

text \<open>
  Claim C1, as amended. The dispatcher routes by the method first: PUT to the upsert,
  POST to the create, GET to the list or the lookup, DELETE to the delete, and any other
  method to status 500 with body \<open>{"message": "some error happened"}\<close> under the two
  fixed headers. For a GET, the list runs when the request has no \<open>pathParameters\<close>
  object and the lookup runs when it has one, whether or not that object holds an \<open>id\<close>:
  the store receives the scan of 20 exactly when \<open>pathParameters\<close> is null.
\<close>

theorem routing_by_method_and_path_parameters:
  "run (handler rt ev) w =
     (if httpMethod ev = ''PUT'' then run (finalize (processPutEvent rt ev)) w
      else if httpMethod ev = ''POST'' then run (finalize (processPostEvent rt ev)) w
      else if httpMethod ev = ''GET'' then
        (if pathParameters ev = None then run (finalize (processGetAllEvent rt)) w
         else run (finalize (processGetByIdEvent rt ev)) w)
      else if httpMethod ev = ''DELETE'' then run (finalize (processDeleteEvent rt ev)) w
      else (Inr \<lparr>statusCode = 500, body = message_body rt ''some error happened'',
                 headers = Some fixed_headers\<rparr>, w)) \<and>
   (httpMethod ev = ''GET'' \<longrightarrow>
      (calls (snd (run (handler rt ev) w)) = calls w @ [ScanCall 20]) = (pathParameters ev = None))"
  by (simp add: run_handler run_processGetAllEvent run_processGetByIdEvent
      split: option.splits sum.splits)

text \<open>At a GET without path parameters on the empty store.\<close>

theorem routing_by_method_and_path_parameters_witness:
  "httpMethod (request ''GET'' None None) = ''GET'' \<and>
   pathParameters (request ''GET'' None None) = None \<and>
   run (handler sample_rt (request ''GET'' None None)) empty_world =
     run (finalize (processGetAllEvent sample_rt)) empty_world \<and>
   calls (snd (run (handler sample_rt (request ''GET'' None None)) empty_world)) =
     calls empty_world @ [ScanCall 20]"
proof -
  have m: "httpMethod (request ''GET'' None None) = ''GET''"
    by (simp add: request_def)
  have p: "pathParameters (request ''GET'' None None) = None"
    by (simp add: request_def)
  show ?thesis
    using m p
      routing_by_method_and_path_parameters [of sample_rt "request ''GET'' None None" empty_world]
    by (simp add: run_processGetAllEvent empty_world_def next_fault_def)
qed

text \<open>
  The claim as it was stated fails: a GET whose \<open>pathParameters\<close> object is there and has
  no \<open>id\<close> goes to the lookup, which asks the store for the key undefined, where the list
  would have scanned.
\<close>

theorem get_without_id_counterexample:
  "path_id \<lparr>httpMethod = ''GET'', pathParameters = Some Map.empty, reqBody = None\<rparr> = None \<and>
   calls (snd (run (handler sample_rt
      \<lparr>httpMethod = ''GET'', pathParameters = Some Map.empty, reqBody = None\<rparr>) empty_world))
     = [GetCall None] \<and>
   calls (snd (run (finalize (processGetAllEvent sample_rt)) empty_world)) = [ScanCall 20] \<and>
   run (handler sample_rt
      \<lparr>httpMethod = ''GET'', pathParameters = Some Map.empty, reqBody = None\<rparr>) empty_world \<noteq>
     run (finalize (processGetAllEvent sample_rt)) empty_world \<and>
   run (handler sample_rt
      \<lparr>httpMethod = ''GET'', pathParameters = Some Map.empty, reqBody = None\<rparr>) empty_world =
     run (finalize (processGetByIdEvent sample_rt
      \<lparr>httpMethod = ''GET'', pathParameters = Some Map.empty, reqBody = None\<rparr>)) empty_world"
  by (simp add: run_handler run_processGetAllEvent run_processGetByIdEvent path_id_def
      empty_world_def next_fault_def addResponseHeaders_def)

text \<open>
  Claim C7. Every response of the dispatcher carries exactly the two headers
  \<open>Content-Type: application/json\<close> and \<open>X-Custom-Header: application/json\<close>, on every
  path; \<open>addResponseHeaders\<close> is total, replaces whatever headers the response had and
  leaves the status and the body as they were.
\<close>

theorem every_response_has_fixed_headers:
  "(\<exists>r w'. run (handler rt ev) w = (Inr r, w') \<and> headers r = Some fixed_headers) \<and>
   headers (addResponseHeaders r0) = Some fixed_headers \<and>
   statusCode (addResponseHeaders r0) = statusCode r0 \<and>
   body (addResponseHeaders r0) = body r0"
proof -
  obtain r w' where "run (handler rt ev) w = (Inr (addResponseHeaders r), w')"
    using handler_returns by blast
  then have "\<exists>r w'. run (handler rt ev) w = (Inr r, w') \<and> headers r = Some fixed_headers"
    by (simp add: addResponseHeaders_def)
  then show ?thesis
    by (simp add: addResponseHeaders_def)
qed

text \<open>
  Claim C9. Whatever is thrown inside the \<open>try\<close> block of a handler (a parse error, the
  injected error, a fault of the store) is caught by that handler's own \<open>catch\<close> and
  returned as status 500 with body \<open>{"error": "Internal Server Error for <op> :: <message>"}\<close>,
  in the world the throw left; and the dispatcher returns a response on every request,
  runtime and world: no error reaches its caller.
\<close>

theorem faults_end_as_500_responses:
  "(\<exists>r w'. run (handler rt ev) w = (Inr r, w')) \<and>
   (\<forall>m w'. run (processPutEvent_try rt ev) w = (Inl m, w') \<longrightarrow>
      run (processPutEvent rt ev) w =
        (Inr \<lparr>statusCode = 500,
              body = error_body rt (''Internal Server Error for Put :: '' @ m),
              headers = None\<rparr>, w')) \<and>
   (\<forall>m w'. run (processPostEvent_try rt ev) w = (Inl m, w') \<longrightarrow>
      run (processPostEvent rt ev) w =
        (Inr \<lparr>statusCode = 500,
              body = error_body rt (''Internal Server Error for Post :: '' @ m),
              headers = None\<rparr>, w')) \<and>
   (\<forall>m w'. run (processGetAllEvent_try rt) w = (Inl m, w') \<longrightarrow>
      run (processGetAllEvent rt) w =
        (Inr \<lparr>statusCode = 500,
              body = error_body rt (''Internal Server Error for GetAll :: '' @ m),
              headers = None\<rparr>, w')) \<and>
   (\<forall>m w'. run (processGetByIdEvent_try rt ev) w = (Inl m, w') \<longrightarrow>
      run (processGetByIdEvent rt ev) w =
        (Inr \<lparr>statusCode = 500,
              body = error_body rt (''Internal Server Error for GetById :: '' @ m),
              headers = None\<rparr>, w')) \<and>
   (\<forall>m w'. run (processDeleteEvent_try rt ev) w = (Inl m, w') \<longrightarrow>
      run (processDeleteEvent rt ev) w =
        (Inr \<lparr>statusCode = 500,
              body = error_body rt (''Internal Server Error for Delete :: '' @ m),
              headers = None\<rparr>, w'))"
proof -
  have "\<exists>r w'. run (handler rt ev) w = (Inr r, w')"
    using handler_returns [of rt ev w] by blast
  then show ?thesis
    by (simp add: caught run_catch)
qed

text \<open>
  One throw per handler: a body that does not parse (PUT, POST), a store whose next request
  fails (list, delete) and the injected error (lookup).
\<close>

theorem faults_end_as_500_responses_witness:
  "run (processPutEvent_try sample_rt (request ''PUT'' (Some ''p1'') (Some ''{''))) empty_world =
     (Inl ''Unexpected end of JSON input'', empty_world) \<and>
   run (processPutEvent sample_rt (request ''PUT'' (Some ''p1'') (Some ''{''))) empty_world =
     (Inr \<lparr>statusCode = 500,
           body = error_body sample_rt
             (''Internal Server Error for Put :: '' @ ''Unexpected end of JSON input''),
           headers = None\<rparr>, empty_world) \<and>
   run (processPostEvent_try sample_rt (request ''POST'' None (Some ''{''))) empty_world =
     (Inl ''Unexpected end of JSON input'', empty_world) \<and>
   run (processPostEvent sample_rt (request ''POST'' None (Some ''{''))) empty_world =
     (Inr \<lparr>statusCode = 500,
           body = error_body sample_rt
             (''Internal Server Error for Post :: '' @ ''Unexpected end of JSON input''),
           headers = None\<rparr>, empty_world) \<and>
   run (processGetAllEvent_try sample_rt) down_world =
     (Inl ''Service Unavailable'', received (ScanCall 20) down_world) \<and>
   run (processGetAllEvent sample_rt) down_world =
     (Inr \<lparr>statusCode = 500,
           body = error_body sample_rt
             (''Internal Server Error for GetAll :: '' @ ''Service Unavailable''),
           headers = None\<rparr>, received (ScanCall 20) down_world) \<and>
   run (processGetByIdEvent_try sample_rt (request ''GET'' (Some ''ForceError'') None))
      full_world = (Inl ''BOOM'', full_world) \<and>
   run (processGetByIdEvent sample_rt (request ''GET'' (Some ''ForceError'') None))
      full_world =
     (Inr \<lparr>statusCode = 500,
           body = error_body sample_rt (''Internal Server Error for GetById :: '' @ ''BOOM''),
           headers = None\<rparr>, full_world) \<and>
   run (processDeleteEvent_try sample_rt (request ''DELETE'' (Some ''p1'') None)) down_world =
     (Inl ''Service Unavailable'', received (GetCall (Some ''p1'')) down_world) \<and>
   run (processDeleteEvent sample_rt (request ''DELETE'' (Some ''p1'') None)) down_world =
     (Inr \<lparr>statusCode = 500,
           body = error_body sample_rt
             (''Internal Server Error for Delete :: '' @ ''Service Unavailable''),
           headers = None\<rparr>, received (GetCall (Some ''p1'')) down_world)"
proof -
  let ?put = "request ''PUT'' (Some ''p1'') (Some ''{'')"
  let ?post = "request ''POST'' None (Some ''{'')"
  let ?list = "request ''GET'' None None"
  let ?get = "request ''GET'' (Some ''ForceError'') None"
  let ?delete = "request ''DELETE'' (Some ''p1'') None"
  have parsed:
    "JSON_parse sample_rt (body_text ?put) = Inl ''Unexpected end of JSON input''"
    "JSON_parse sample_rt (body_text ?post) = Inl ''Unexpected end of JSON input''"
    by (simp_all add: request_def body_text_def sample_rt_def sample_parse_def parse_table_def
        pen_text_def force_text_def)
  have key: "path_id ?get = Some ''ForceError''" "path_id ?delete = Some ''p1''"
    by (simp_all add: request_def path_id_def)
  have down: "next_fault down_world = Some ''Service Unavailable''"
    by (simp add: down_world_def next_fault_def)
  have put: "run (processPutEvent_try sample_rt ?put) empty_world =
      (Inl ''Unexpected end of JSON input'', empty_world)"
    using parsed by (simp add: processPutEvent_try_def run_parse_product Let_def)
  have post: "run (processPostEvent_try sample_rt ?post) empty_world =
      (Inl ''Unexpected end of JSON input'', empty_world)"
    using parsed by (simp add: processPostEvent_try_def run_parse_product Let_def)
  have getall: "run (processGetAllEvent_try sample_rt) down_world =
      (Inl ''Service Unavailable'', received (ScanCall 20) down_world)"
    using down by (simp add: processGetAllEvent_try_def run_db_scan Let_def)
  have get: "run (processGetByIdEvent_try sample_rt ?get) full_world = (Inl ''BOOM'', full_world)"
    using key by (simp add: processGetByIdEvent_try_def Let_def)
  have delete: "run (processDeleteEvent_try sample_rt ?delete) down_world =
      (Inl ''Service Unavailable'', received (GetCall (Some ''p1'')) down_world)"
    using key down by (simp add: processDeleteEvent_try_def run_db_get Let_def)
  from faults_end_as_500_responses [of sample_rt ?put empty_world] put
  have a: "run (processPutEvent sample_rt ?put) empty_world =
     (Inr \<lparr>statusCode = 500,
           body = error_body sample_rt
             (''Internal Server Error for Put :: '' @ ''Unexpected end of JSON input''),
           headers = None\<rparr>, empty_world)"
    by blast
  from faults_end_as_500_responses [of sample_rt ?post empty_world] post
  have b: "run (processPostEvent sample_rt ?post) empty_world =
     (Inr \<lparr>statusCode = 500,
           body = error_body sample_rt
             (''Internal Server Error for Post :: '' @ ''Unexpected end of JSON input''),
           headers = None\<rparr>, empty_world)"
    by blast
  from faults_end_as_500_responses [of sample_rt ?list down_world] getall
  have c: "run (processGetAllEvent sample_rt) down_world =
     (Inr \<lparr>statusCode = 500,
           body = error_body sample_rt
             (''Internal Server Error for GetAll :: '' @ ''Service Unavailable''),
           headers = None\<rparr>, received (ScanCall 20) down_world)"
    by blast
  from faults_end_as_500_responses [of sample_rt ?get full_world] get
  have d: "run (processGetByIdEvent sample_rt ?get) full_world =
     (Inr \<lparr>statusCode = 500,
           body = error_body sample_rt (''Internal Server Error for GetById :: '' @ ''BOOM''),
           headers = None\<rparr>, full_world)"
    by blast
  from faults_end_as_500_responses [of sample_rt ?delete down_world] delete
  have e: "run (processDeleteEvent sample_rt ?delete) down_world =
     (Inr \<lparr>statusCode = 500,
           body = error_body sample_rt
             (''Internal Server Error for Delete :: '' @ ''Service Unavailable''),
           headers = None\<rparr>, received (GetCall (Some ''p1'')) down_world)"
    by blast
  from put a post b getall c get d delete e show ?thesis
    by (intro conjI)
qed

section \<open>The upsert and the create\<close>

text \<open>
  Claim C2. A PUT whose body parses and whose decoded \<open>id\<close> is not the path \<open>id\<close>
  (\<open>product.id !== id\<close>) is answered with status 400 and body
  \<open>{"error": "Product ID in the body does not match path parameter"}\<close>, and the world is
  left as it was: no request reached the store, the table is unchanged. So a lookup that
  follows, on a key the table does not hold, is answered with 404 as it would have been
  before (the key not being \<open>ForceError\<close> and the store serving the request).
\<close>

theorem put_id_mismatch_is_400:
  assumes "httpMethod ev = ''PUT''"
    and "JSON_parse rt (body_text ev) = Inr v"
    and "js_get (if truthy v then v else JObject []) ''id'' \<noteq> map_option JString (path_id ev)"
  shows "run (handler rt ev) w =
      (Inr \<lparr>statusCode = 400,
            body = error_body rt ''Product ID in the body does not match path parameter'',
            headers = Some fixed_headers\<rparr>, w) \<and>
    (\<forall>ev' ps k. httpMethod ev' = ''GET'' \<and> pathParameters ev' = Some ps \<and> ps ''id'' = Some k \<and>
        k \<noteq> ''ForceError'' \<and> map_of (table w) k = None \<and> next_fault w = None \<longrightarrow>
      fst (run (handler rt ev') (snd (run (handler rt ev) w))) =
        Inr \<lparr>statusCode = 404,
             body = error_body rt (''Product with id = '' @ k @ '' NOT found''),
             headers = Some fixed_headers\<rparr>)"
proof -
  have put: "run (handler rt ev) w =
      (Inr \<lparr>statusCode = 400,
            body = error_body rt ''Product ID in the body does not match path parameter'',
            headers = Some fixed_headers\<rparr>, w)"
    using assms by (simp add: run_handler run_processPutEvent addResponseHeaders_def Let_def)
  have get: "fst (run (handler rt ev') w) =
        Inr \<lparr>statusCode = 404,
             body = error_body rt (''Product with id = '' @ k @ '' NOT found''),
             headers = Some fixed_headers\<rparr>"
    if "httpMethod ev' = ''GET''" "pathParameters ev' = Some ps" "ps ''id'' = Some k"
      "k \<noteq> ''ForceError''" "map_of (table w) k = None" "next_fault w = None" for ev' ps k
    using that
    by (simp add: run_handler run_processGetByIdEvent addResponseHeaders_def path_id_def)
  show ?thesis
    using get by (simp add: put)
qed

text \<open>A PUT to \<open>p2\<close> with the body of \<open>p1\<close>, then a GET of \<open>p1\<close>, on the empty store.\<close>

theorem put_id_mismatch_is_400_witness:
  "httpMethod (request ''PUT'' (Some ''p2'') (Some pen_text)) = ''PUT'' \<and>
   JSON_parse sample_rt (body_text (request ''PUT'' (Some ''p2'') (Some pen_text))) =
     Inr (JObject [(''id'', JString ''p1''), (''name'', JString ''pen''), (''price'', JNumber ''3'')]) \<and>
   js_get (JObject [(''id'', JString ''p1''), (''name'', JString ''pen''), (''price'', JNumber ''3'')]) ''id''
     \<noteq> map_option JString (path_id (request ''PUT'' (Some ''p2'') (Some pen_text))) \<and>
   run (handler sample_rt (request ''PUT'' (Some ''p2'') (Some pen_text))) empty_world =
      (Inr \<lparr>statusCode = 400,
            body = error_body sample_rt ''Product ID in the body does not match path parameter'',
            headers = Some fixed_headers\<rparr>, empty_world) \<and>
   fst (run (handler sample_rt (request ''GET'' (Some ''p1'') None))
         (snd (run (handler sample_rt (request ''PUT'' (Some ''p2'') (Some pen_text))) empty_world))) =
      Inr \<lparr>statusCode = 404,
           body = error_body sample_rt (''Product with id = '' @ ''p1'' @ '' NOT found''),
           headers = Some fixed_headers\<rparr>"
proof -
  let ?ev = "request ''PUT'' (Some ''p2'') (Some pen_text)"
  let ?v = "JObject [(''id'', JString ''p1''), (''name'', JString ''pen''), (''price'', JNumber ''3'')]"
  have m: "httpMethod ?ev = ''PUT''"
    by (simp add: request_def)
  have p: "JSON_parse sample_rt (body_text ?ev) = Inr ?v"
    by (simp add: request_def body_text_def sample_rt_def sample_parse_def parse_table_def
        pen_text_def force_text_def)
  have d0: "js_get ?v ''id'' \<noteq> map_option JString (path_id ?ev)"
    by (simp add: request_def path_id_def)
  then have d: "js_get (if truthy ?v then ?v else JObject []) ''id'' \<noteq> map_option JString (path_id ?ev)"
    by simp
  have g: "httpMethod (request ''GET'' (Some ''p1'') None) = ''GET'' \<and>
      pathParameters (request ''GET'' (Some ''p1'') None) = Some [''id'' \<mapsto> ''p1''] \<and>
      [''id'' \<mapsto> ''p1''] ''id'' = Some ''p1'' \<and> ''p1'' \<noteq> ''ForceError'' \<and>
      map_of (table empty_world) ''p1'' = None \<and> next_fault empty_world = None"
    by (simp add: request_def empty_world_def next_fault_def)
  note t = put_id_mismatch_is_400 [OF m p d, of empty_world]
  from t have a: "run (handler sample_rt ?ev) empty_world =
      (Inr \<lparr>statusCode = 400,
            body = error_body sample_rt ''Product ID in the body does not match path parameter'',
            headers = Some fixed_headers\<rparr>, empty_world)"
    by (rule conjunct1)
  from t g have b: "fst (run (handler sample_rt (request ''GET'' (Some ''p1'') None))
         (snd (run (handler sample_rt ?ev) empty_world))) =
      Inr \<lparr>statusCode = 404,
           body = error_body sample_rt (''Product with id = '' @ ''p1'' @ '' NOT found''),
           headers = Some fixed_headers\<rparr>"
    by blast
  from m p d0 a b show ?thesis
    by (intro conjI)
qed

text \<open>
  Claim C3, as amended. \<open>JSON.parse\<close> throws on a body that is not JSON (an absent or
  empty body is parsed as the empty string): the throw is caught by the handler, and a PUT
  or POST with such a body is answered with status 500 and body
  \<open>{"error": "Internal Server Error for Put :: <message>"}\<close> (\<open>Post\<close> for a POST), no
  request reaching the store. The \<open>|| {}\<close> replaces the parsed value by the empty object
  only when the body parses to a falsy value (\<open>null\<close>, \<open>false\<close>, \<open>0\<close>, \<open>""\<close>); the handler
  then goes on: a PUT with a path \<open>id\<close> ends at the mismatch check with 400, a POST
  sends the store a put of the fresh key with no name and no price.
\<close>

theorem malformed_body_is_500:
  "(httpMethod ev = ''PUT'' \<and> JSON_parse rt (body_text ev) = Inl m \<longrightarrow>
      run (handler rt ev) w =
        (Inr \<lparr>statusCode = 500,
              body = error_body rt (''Internal Server Error for Put :: '' @ m),
              headers = Some fixed_headers\<rparr>, w)) \<and>
   (httpMethod ev = ''POST'' \<and> JSON_parse rt (body_text ev) = Inl m \<longrightarrow>
      run (handler rt ev) w =
        (Inr \<lparr>statusCode = 500,
              body = error_body rt (''Internal Server Error for Post :: '' @ m),
              headers = Some fixed_headers\<rparr>, w)) \<and>
   (JSON_parse rt (body_text ev) = Inr v \<longrightarrow>
      run (parse_product rt ev) w = (Inr (if truthy v then v else JObject []), w)) \<and>
   (httpMethod ev = ''PUT'' \<and> JSON_parse rt (body_text ev) = Inr v \<and> \<not> truthy v \<and>
    path_id ev = Some k \<longrightarrow>
      run (handler rt ev) w =
        (Inr \<lparr>statusCode = 400,
              body = error_body rt ''Product ID in the body does not match path parameter'',
              headers = Some fixed_headers\<rparr>, w)) \<and>
   (httpMethod ev = ''POST'' \<and> JSON_parse rt (body_text ev) = Inr v \<and> \<not> truthy v \<longrightarrow>
      calls (snd (run (handler rt ev) w)) =
        calls w @ [PutCall [(''PK'', Some (JString (uuidv4 rt (drawn w)))),
                            (''name'', None), (''price'', None)]])"
  by (simp add: run_handler run_processPutEvent run_processPostEvent run_parse_product
      addResponseHeaders_def Let_def split: option.splits)

text \<open>The body \<open>{\<close>, no body, and the body \<open>null\<close>, on the empty store.\<close>

theorem malformed_body_is_500_witness:
  "httpMethod (request ''PUT'' (Some ''p1'') (Some ''{'')) = ''PUT'' \<and>
   JSON_parse sample_rt (body_text (request ''PUT'' (Some ''p1'') (Some ''{''))) =
     Inl ''Unexpected end of JSON input'' \<and>
   run (handler sample_rt (request ''PUT'' (Some ''p1'') (Some ''{''))) empty_world =
     (Inr \<lparr>statusCode = 500,
           body = error_body sample_rt
             (''Internal Server Error for Put :: '' @ ''Unexpected end of JSON input''),
           headers = Some fixed_headers\<rparr>, empty_world) \<and>
   httpMethod (request ''POST'' None None) = ''POST'' \<and>
   JSON_parse sample_rt (body_text (request ''POST'' None None)) =
     Inl ''Unexpected end of JSON input'' \<and>
   run (handler sample_rt (request ''POST'' None None)) empty_world =
     (Inr \<lparr>statusCode = 500,
           body = error_body sample_rt
             (''Internal Server Error for Post :: '' @ ''Unexpected end of JSON input''),
           headers = Some fixed_headers\<rparr>, empty_world) \<and>
   httpMethod (request ''PUT'' (Some ''p1'') (Some ''null'')) = ''PUT'' \<and>
   JSON_parse sample_rt (body_text (request ''PUT'' (Some ''p1'') (Some ''null''))) = Inr JNull \<and>
   \<not> truthy JNull \<and>
   path_id (request ''PUT'' (Some ''p1'') (Some ''null'')) = Some ''p1'' \<and>
   run (parse_product sample_rt (request ''PUT'' (Some ''p1'') (Some ''null''))) empty_world =
     (Inr (JObject []), empty_world) \<and>
   run (handler sample_rt (request ''PUT'' (Some ''p1'') (Some ''null''))) empty_world =
     (Inr \<lparr>statusCode = 400,
           body = error_body sample_rt ''Product ID in the body does not match path parameter'',
           headers = Some fixed_headers\<rparr>, empty_world) \<and>
   httpMethod (request ''POST'' None (Some ''null'')) = ''POST'' \<and>
   JSON_parse sample_rt (body_text (request ''POST'' None (Some ''null''))) = Inr JNull \<and>
   calls (snd (run (handler sample_rt (request ''POST'' None (Some ''null''))) empty_world)) =
     calls empty_world @ [PutCall [(''PK'', Some (JString (uuidv4 sample_rt (drawn empty_world)))),
                                   (''name'', None), (''price'', None)]]"
proof -
  let ?bad = "request ''PUT'' (Some ''p1'') (Some ''{'')"
  let ?none = "request ''POST'' None None"
  let ?null = "request ''PUT'' (Some ''p1'') (Some ''null'')"
  let ?pnull = "request ''POST'' None (Some ''null'')"
  have parsed:
    "JSON_parse sample_rt (body_text ?bad) = Inl ''Unexpected end of JSON input''"
    "JSON_parse sample_rt (body_text ?none) = Inl ''Unexpected end of JSON input''"
    "JSON_parse sample_rt (body_text ?null) = Inr JNull"
    "JSON_parse sample_rt (body_text ?pnull) = Inr JNull"
    by (simp_all add: request_def body_text_def sample_rt_def sample_parse_def parse_table_def
        pen_text_def force_text_def)
  have verb:
    "httpMethod ?bad = ''PUT''" "httpMethod ?none = ''POST''"
    "httpMethod ?null = ''PUT''" "httpMethod ?pnull = ''POST''"
    by (simp_all add: request_def)
  have key: "path_id ?null = Some ''p1''"
    by (simp add: request_def path_id_def)
  have falsy: "\<not> truthy JNull"
    by simp
  note t1 = malformed_body_is_500 [of ?bad sample_rt "''Unexpected end of JSON input''" empty_world]
  note t2 = malformed_body_is_500 [of ?none sample_rt "''Unexpected end of JSON input''" empty_world]
  note t3 = malformed_body_is_500 [of ?null sample_rt _ empty_world JNull "''p1''"]
  note t4 = malformed_body_is_500 [of ?pnull sample_rt _ empty_world JNull]
  from t1 verb(1) parsed(1) have a: "run (handler sample_rt ?bad) empty_world =
     (Inr \<lparr>statusCode = 500,
           body = error_body sample_rt
             (''Internal Server Error for Put :: '' @ ''Unexpected end of JSON input''),
           headers = Some fixed_headers\<rparr>, empty_world)"
    by blast
  from t2 verb(2) parsed(2) have b: "run (handler sample_rt ?none) empty_world =
     (Inr \<lparr>statusCode = 500,
           body = error_body sample_rt
             (''Internal Server Error for Post :: '' @ ''Unexpected end of JSON input''),
           headers = Some fixed_headers\<rparr>, empty_world)"
    by blast
  from t3 parsed(3) have c: "run (parse_product sample_rt ?null) empty_world =
     (Inr (JObject []), empty_world)"
    by simp
  from t3 verb(3) parsed(3) falsy key have d: "run (handler sample_rt ?null) empty_world =
     (Inr \<lparr>statusCode = 400,
           body = error_body sample_rt ''Product ID in the body does not match path parameter'',
           headers = Some fixed_headers\<rparr>, empty_world)"
    by blast
  from t4 verb(4) parsed(4) falsy have e:
    "calls (snd (run (handler sample_rt ?pnull) empty_world)) =
     calls empty_world @ [PutCall [(''PK'', Some (JString (uuidv4 sample_rt (drawn empty_world)))),
                                   (''name'', None), (''price'', None)]]"
    by blast
  from verb parsed key falsy a b c d e show ?thesis
    by (intro conjI)
qed

text \<open>
  The claim as it was stated fails: with the body \<open>{\<close>, which does not parse, a PUT and a
  POST both end on the status 500 path.
\<close>

theorem malformed_body_counterexample:
  "JSON_parse sample_rt (body_text (request ''PUT'' (Some ''p1'') (Some ''{''))) =
     Inl ''Unexpected end of JSON input'' \<and>
   run (handler sample_rt (request ''PUT'' (Some ''p1'') (Some ''{''))) empty_world =
     (Inr \<lparr>statusCode = 500,
           body = error_body sample_rt
             ''Internal Server Error for Put :: Unexpected end of JSON input'',
           headers = Some fixed_headers\<rparr>, empty_world) \<and>
   JSON_parse sample_rt (body_text (request ''POST'' None (Some ''{''))) =
     Inl ''Unexpected end of JSON input'' \<and>
   run (handler sample_rt (request ''POST'' None (Some ''{''))) empty_world =
     (Inr \<lparr>statusCode = 500,
           body = error_body sample_rt
             ''Internal Server Error for Post :: Unexpected end of JSON input'',
           headers = Some fixed_headers\<rparr>, empty_world)"
  by (simp add: run_handler run_processPutEvent run_processPostEvent request_def body_text_def
      sample_rt_def sample_parse_def parse_table_def pen_text_def force_text_def
      addResponseHeaders_def)

text \<open>
  Claim C8, as amended. When a PUT on the path \<open>id\<close> k is answered with 201 (the body's
  \<open>id\<close> is then k and the store has performed the write), the table holds under k exactly
  the record \<open>PK\<close> = k with the body's \<open>name\<close> and \<open>price\<close>, each left out when the body
  has none, whatever the table held under k before; and a GET of k that follows is
  answered with status 200 and that record as body, provided k is not \<open>ForceError\<close> and
  the store serves the lookup.
\<close>

theorem put_then_get_returns_record:
  assumes "httpMethod ev = ''PUT''"
    and "path_id ev = Some k"
    and "JSON_parse rt (body_text ev) = Inr v"
    and "product = (if truthy v then v else JObject [])"
    and "run (handler rt ev) w = (Inr r, w')"
    and "statusCode r = 201"
    and "httpMethod ev' = ''GET''"
    and "pathParameters ev' = Some ps"
    and "ps ''id'' = Some k"
    and "k \<noteq> ''ForceError''"
    and "next_fault w' = None"
  shows "js_get product ''id'' = Some (JString k) \<and>
    map_of (table w') k =
      Some (marshal [(''PK'', Some (JString k)), (''name'', js_get product ''name''),
                     (''price'', js_get product ''price'')]) \<and>
    fst (run (handler rt ev') w') =
      Inr \<lparr>statusCode = 200,
           body = JSON_stringify rt (JObject (marshal
             [(''PK'', Some (JString k)), (''name'', js_get product ''name''),
              (''price'', js_get product ''price'')])),
           headers = Some fixed_headers\<rparr>"
proof -
  let ?attrs = "[(''PK'', Some (JString k)), (''name'', js_get product ''name''),
                 (''price'', js_get product ''price'')]"
  from assms(1-6) have same: "js_get product ''id'' = Some (JString k)"
    by (auto simp add: run_handler run_processPutEvent addResponseHeaders_def Let_def
        split: if_splits option.splits)
  from assms(1-6) same have w': "w' = (received (PutCall ?attrs) w)
      \<lparr>table := AList.update k (marshal ?attrs) (table w)\<rparr>"
    by (auto simp add: run_handler run_processPutEvent addResponseHeaders_def Let_def
        split: if_splits option.splits)
  then have stored: "map_of (table w') k = Some (marshal ?attrs)"
    by (simp add: update_conv')
  from assms(7-11) stored have "fst (run (handler rt ev') w') =
      Inr \<lparr>statusCode = 200, body = JSON_stringify rt (JObject (marshal ?attrs)),
           headers = Some fixed_headers\<rparr>"
    by (simp add: run_handler run_processGetByIdEvent addResponseHeaders_def path_id_def)
  with same stored show ?thesis
    by (intro conjI)
qed

text \<open>
  On the store that holds \<open>p1\<close> with a name and a colour: after the PUT the record has the
  new name and the price, and no colour.
\<close>

theorem put_then_get_returns_record_witness:
  "httpMethod (request ''PUT'' (Some ''p1'') (Some pen_text)) = ''PUT'' \<and>
   path_id (request ''PUT'' (Some ''p1'') (Some pen_text)) = Some ''p1'' \<and>
   JSON_parse sample_rt (body_text (request ''PUT'' (Some ''p1'') (Some pen_text))) =
     Inr (JObject [(''id'', JString ''p1''), (''name'', JString ''pen''),
                   (''price'', JNumber ''3'')]) \<and>
   fst (run (handler sample_rt (request ''PUT'' (Some ''p1'') (Some pen_text))) stocked_world) =
     Inr \<lparr>statusCode = 201,
          body = message_body sample_rt ''Product with id = p1 edited(created)'',
          headers = Some fixed_headers\<rparr> \<and>
   httpMethod (request ''GET'' (Some ''p1'') None) = ''GET'' \<and>
   pathParameters (request ''GET'' (Some ''p1'') None) = Some [''id'' \<mapsto> ''p1''] \<and>
   [''id'' \<mapsto> ''p1''] ''id'' = Some ''p1'' \<and>
   ''p1'' \<noteq> ''ForceError'' \<and>
   next_fault (snd (run (handler sample_rt (request ''PUT'' (Some ''p1'') (Some pen_text)))
     stocked_world)) = None \<and>
   fst (run (handler sample_rt (request ''GET'' (Some ''p1'') None))
     (snd (run (handler sample_rt (request ''PUT'' (Some ''p1'') (Some pen_text)))
        stocked_world))) =
     Inr \<lparr>statusCode = 200,
          body = JSON_stringify sample_rt
            (JObject [(''PK'', JString ''p1''), (''name'', JString ''pen''),
                      (''price'', JNumber ''3'')]),
          headers = Some fixed_headers\<rparr>"
proof -
  let ?put = "request ''PUT'' (Some ''p1'') (Some pen_text)"
  let ?get = "request ''GET'' (Some ''p1'') None"
  let ?v = "JObject [(''id'', JString ''p1''), (''name'', JString ''pen''),
                     (''price'', JNumber ''3'')]"
  let ?r = "\<lparr>statusCode = 201,
          body = message_body sample_rt ''Product with id = p1 edited(created)'',
          headers = Some fixed_headers\<rparr>"
  let ?w = "snd (run (handler sample_rt ?put) stocked_world)"
  have m: "httpMethod ?put = ''PUT''"
    by (simp add: request_def)
  have k: "path_id ?put = Some ''p1''"
    by (simp add: request_def path_id_def)
  have p: "JSON_parse sample_rt (body_text ?put) = Inr ?v"
    by (simp add: request_def body_text_def sample_rt_def sample_parse_def parse_table_def
        pen_text_def force_text_def)
  have v: "?v = (if truthy ?v then ?v else JObject [])"
    by simp
  have put: "fst (run (handler sample_rt ?put) stocked_world) = Inr ?r"
    using m k p
    by (simp add: run_handler run_processPutEvent addResponseHeaders_def stocked_world_def
        next_fault_def Let_def)
  then have run: "run (handler sample_rt ?put) stocked_world = (Inr ?r, ?w)"
    by (simp add: prod_eq_iff)
  have s: "statusCode ?r = 201"
    by simp
  have g: "httpMethod ?get = ''GET''"
    by (simp add: request_def)
  have ps: "pathParameters ?get = Some [''id'' \<mapsto> ''p1'']"
    by (simp add: request_def)
  have i: "[''id'' \<mapsto> ''p1''] ''id'' = Some ''p1''"
    by simp
  have n: "''p1'' \<noteq> ''ForceError''"
    by simp
  have f: "next_fault ?w = None"
    using m k p
    by (simp add: run_handler run_processPutEvent addResponseHeaders_def stocked_world_def
        next_fault_def Let_def)
  from put_then_get_returns_record [OF m k p v run s g ps i n f]
  have "fst (run (handler sample_rt ?get) ?w) =
     Inr \<lparr>statusCode = 200,
          body = JSON_stringify sample_rt (JObject (marshal
            [(''PK'', Some (JString ''p1'')), (''name'', js_get ?v ''name''),
             (''price'', js_get ?v ''price'')])),
          headers = Some fixed_headers\<rparr>"
    by blast
  then have get: "fst (run (handler sample_rt ?get) ?w) =
     Inr \<lparr>statusCode = 200,
          body = JSON_stringify sample_rt
            (JObject [(''PK'', JString ''p1''), (''name'', JString ''pen''),
                      (''price'', JNumber ''3'')]),
          headers = Some fixed_headers\<rparr>"
    by (simp add: marshal_def List.map_filter_def)
  from m k p put g ps i n f get show ?thesis
    by (intro conjI)
qed

text \<open>
  The claim as it was stated fails at the key \<open>ForceError\<close>: the PUT is answered with 201
  and the record is in the table, and the GET that follows is answered with 500.
\<close>

theorem put_then_get_counterexample:
  "fst (run (handler sample_rt (request ''PUT'' (Some ''ForceError'') (Some force_text)))
      empty_world) =
     Inr \<lparr>statusCode = 201,
          body = message_body sample_rt ''Product with id = ForceError edited(created)'',
          headers = Some fixed_headers\<rparr> \<and>
   map_of (table (snd (run (handler sample_rt
      (request ''PUT'' (Some ''ForceError'') (Some force_text))) empty_world))) ''ForceError'' =
     Some [(''PK'', JString ''ForceError''), (''name'', JString ''pen''),
           (''price'', JNumber ''3'')] \<and>
   fst (run (handler sample_rt (request ''GET'' (Some ''ForceError'') None))
     (snd (run (handler sample_rt (request ''PUT'' (Some ''ForceError'') (Some force_text)))
        empty_world))) =
     Inr \<lparr>statusCode = 500,
          body = error_body sample_rt ''Internal Server Error for GetById :: BOOM'',
          headers = Some fixed_headers\<rparr>"
  by (simp add: run_handler run_processPutEvent run_processGetByIdEvent request_def
      body_text_def path_id_def sample_rt_def sample_parse_def parse_table_def pen_text_def
      force_text_def addResponseHeaders_def empty_world_def next_fault_def marshal_def
      List.map_filter_def)

section \<open>The list\<close>



text \<open>
  The list does not succeed when the scan faults or when a record of the page cannot be
  converted for the log line: on the store whose record has an attribute \<open>toString\<close> the
  answer is status 500.
\<close>

lemma list_with_toString_record_is_500:
  "run (handler sample_rt (request ''GET'' None None)) shadowed_world =
     (Inr \<lparr>statusCode = 500,
           body = error_body sample_rt
             ''Internal Server Error for GetAll :: Cannot convert object to primitive value'',
           headers = Some fixed_headers\<rparr>, received (ScanCall 20) shadowed_world)"
  by (simp add: run_handler run_processGetAllEvent request_def shadowed_world_def
      next_fault_def sample_rt_def sample_record_text_def addResponseHeaders_def)

section \<open>The lookup\<close>

text \<open>
  Claim C5. A GET whose \<open>id\<close> path parameter is the string \<open>ForceError\<close> throws
  \<open>Error('BOOM')\<close> before any store access: whatever the store holds and whatever faults
  it has pending, the response is status 500 with body
  \<open>{"error": "Internal Server Error for GetById :: BOOM"}\<close>, and the world is left as it
  was (no request reached the store).
\<close>

theorem force_error_is_500:
  assumes "httpMethod ev = ''GET''"
    and "pathParameters ev = Some ps"
    and "ps ''id'' = Some ''ForceError''"
  shows "run (handler rt ev) w =
    (Inr \<lparr>statusCode = 500, body = error_body rt ''Internal Server Error for GetById :: BOOM'',
          headers = Some fixed_headers\<rparr>, w)"
  using assms
  by (simp add: run_handler run_processGetByIdEvent path_id_def addResponseHeaders_def)

text \<open>On the store of 21 records.\<close>

theorem force_error_is_500_witness:
  "httpMethod (request ''GET'' (Some ''ForceError'') None) = ''GET'' \<and>
   pathParameters (request ''GET'' (Some ''ForceError'') None) =
     Some [''id'' \<mapsto> ''ForceError''] \<and>
   [''id'' \<mapsto> ''ForceError''] ''id'' = Some ''ForceError'' \<and>
   run (handler sample_rt (request ''GET'' (Some ''ForceError'') None)) full_world =
    (Inr \<lparr>statusCode = 500,
          body = error_body sample_rt ''Internal Server Error for GetById :: BOOM'',
          headers = Some fixed_headers\<rparr>, full_world)"
proof -
  have m: "httpMethod (request ''GET'' (Some ''ForceError'') None) = ''GET''"
    by (simp add: request_def)
  have p: "pathParameters (request ''GET'' (Some ''ForceError'') None) =
      Some [''id'' \<mapsto> ''ForceError'']"
    by (simp add: request_def)
  have i: "[''id'' \<mapsto> ''ForceError''] ''id'' = Some ''ForceError''"
    by simp
  show ?thesis
    using m p i force_error_is_500 [OF m p i, of sample_rt full_world] by simp
qed

section \<open>The delete\<close>

text \<open>
  Claim C4. A DELETE of a key the table does not hold, the store serving the lookup, is
  answered with status 404 and body \<open>{"error": "Product with id = <id> was deleted"}\<close>;
  the store has received the lookup and nothing else (no delete), and the table is
  unchanged. The text is the one the successful delete returns under \<open>message\<close> with
  status 200.
\<close>

theorem delete_absent_is_404:
  assumes "httpMethod ev = ''DELETE''"
    and "path_id ev = Some k"
    and "map_of (table w) k = None"
    and "next_fault w = None"
  shows "run (handler rt ev) w =
      (Inr \<lparr>statusCode = 404,
            body = error_body rt (''Product with id = '' @ k @ '' was deleted''),
            headers = Some fixed_headers\<rparr>, received (GetCall (Some k)) w) \<and>
    table (snd (run (handler rt ev) w)) = table w \<and>
    calls (snd (run (handler rt ev) w)) = calls w @ [GetCall (Some k)] \<and>
    (\<forall>w0 found. map_of (table w0) k = Some found \<and> faults w0 = [] \<longrightarrow>
       fst (run (handler rt ev) w0) =
         Inr \<lparr>statusCode = 200,
              body = message_body rt (''Product with id = '' @ k @ '' was deleted''),
              headers = Some fixed_headers\<rparr>)"
  using assms
  by (simp add: run_handler run_processDeleteEvent addResponseHeaders_def next_fault_def)

text \<open>The key \<open>z\<close> on the store of 21 records \<open>a\<close> to \<open>u\<close>.\<close>

theorem delete_absent_is_404_witness:
  "httpMethod (request ''DELETE'' (Some ''z'') None) = ''DELETE'' \<and>
   path_id (request ''DELETE'' (Some ''z'') None) = Some ''z'' \<and>
   map_of (table full_world) ''z'' = None \<and>
   next_fault full_world = None \<and>
   run (handler sample_rt (request ''DELETE'' (Some ''z'') None)) full_world =
      (Inr \<lparr>statusCode = 404,
            body = error_body sample_rt (''Product with id = '' @ ''z'' @ '' was deleted''),
            headers = Some fixed_headers\<rparr>, received (GetCall (Some ''z'')) full_world) \<and>
   table (snd (run (handler sample_rt (request ''DELETE'' (Some ''z'') None)) full_world)) =
     table full_world \<and>
   calls (snd (run (handler sample_rt (request ''DELETE'' (Some ''z'') None)) full_world)) =
     calls full_world @ [GetCall (Some ''z'')]"
proof -
  let ?ev = "request ''DELETE'' (Some ''z'') None"
  have m: "httpMethod ?ev = ''DELETE''"
    by (simp add: request_def)
  have p: "path_id ?ev = Some ''z''"
    by (simp add: request_def path_id_def)
  have a: "map_of (table full_world) ''z'' = None"
    by (simp add: full_world_def)
  have f: "next_fault full_world = None"
    by (simp add: full_world_def next_fault_def)
  note t = delete_absent_is_404 [OF m p a f, of sample_rt]
  from t have r: "run (handler sample_rt ?ev) full_world =
      (Inr \<lparr>statusCode = 404,
            body = error_body sample_rt (''Product with id = '' @ ''z'' @ '' was deleted''),
            headers = Some fixed_headers\<rparr>, received (GetCall (Some ''z'')) full_world)"
    by (rule conjunct1)
  from t have s: "table (snd (run (handler sample_rt ?ev) full_world)) = table full_world"
    by blast
  from t have c: "calls (snd (run (handler sample_rt ?ev) full_world)) =
     calls full_world @ [GetCall (Some ''z'')]"
    by blast
  from m p a f r s c show ?thesis
    by (intro conjI)
qed

section \<open>The two implementations\<close>




end
